theory Spec2Isabelle
  imports Main "HOL-Library.Word"
begin

section \<open>The MQTT client of src/mqtt.py\<close>

text \<open>
  The class \<open>MQTTClient\<close> wraps a paho client handle. Everything the class does to the
  outside world is a call on that handle (\<open>self.client\<close>), a \<open>time.sleep\<close> or a line
  written to its logger. The model keeps the object's fields in a record and appends every
  such effect, in program order, to the field \<open>trace\<close>.
\<close>

subsection \<open>Calls on the paho handle, log lines, effects\<close>

datatype call =
    Connect string int int   \<comment> \<open>\<open>self.client.connect(broker, port, keepalive)\<close>\<close>
  | LoopStart                \<comment> \<open>\<open>self.client.loop_start()\<close>\<close>
  | LoopStop                 \<comment> \<open>\<open>self.client.loop_stop()\<close>\<close>
  | Disconnect               \<comment> \<open>\<open>self.client.disconnect()\<close>\<close>
  | Reconnect                \<comment> \<open>\<open>self.client.reconnect()\<close>\<close>
  | Publish string string    \<comment> \<open>\<open>self.client.publish(topic, message)\<close>\<close>
  | Subscribe string         \<comment> \<open>\<open>self.client.subscribe(topic)\<close>\<close>

text \<open>
  A call on the handle either returns or raises. The result code is what the source reads
  from the returned value: \<open>result.rc\<close> of \<open>publish\<close>, \<open>result[0]\<close> of \<open>subscribe\<close>; the
  other calls' return values are ignored by the source.
\<close>

datatype reply = Returns int | Raises

datatype level = INFO | WARNING | ERROR

text \<open>One constructor per log line of the source, with the values the line interpolates.\<close>

datatype logmsg =
    ConnectedOk              \<comment> \<open>line 35\<close>
  | ConnectRefused int       \<comment> \<open>line 39, with \<open>rc\<close>\<close>
  | Received string string   \<comment> \<open>line 45, with \<open>msg.topic\<close> and the decoded payload\<close>
  | MessageError             \<comment> \<open>line 48\<close>
  | UnexpectedDisconnect     \<comment> \<open>line 54\<close>
  | ConnectError             \<comment> \<open>line 63\<close>
  | ReconnectFailed          \<comment> \<open>line 74\<close>
  | NotConnected             \<comment> \<open>line 93\<close>
  | PublishOk string         \<comment> \<open>line 100, with \<open>message\<close>\<close>
  | PublishFailed int        \<comment> \<open>line 103, with \<open>result.rc\<close>\<close>
  | PublishError             \<comment> \<open>line 106\<close>
  | SubscribeOk string       \<comment> \<open>line 122, with \<open>sub_topic\<close>\<close>
  | SubscribeFailed int      \<comment> \<open>line 125, with \<open>result[0]\<close>\<close>
  | SubscribeError           \<comment> \<open>line 128\<close>

datatype event =
    Call call
  | Sleep int                \<comment> \<open>\<open>time.sleep(seconds)\<close>\<close>
  | Log level logmsg

text \<open>
  The paho library is not part of the repository: it is a parameter of every operation.
  It answers a call knowing everything the object has done so far.
\<close>

type_synonym paho = "event list \<Rightarrow> call \<Rightarrow> reply"

text \<open>\<open>mqtt.MQTT_ERR_SUCCESS\<close>, the library's constant for a successful result code.\<close>

definition MQTT_ERR_SUCCESS :: int where
  "MQTT_ERR_SUCCESS = 0"

subsection \<open>The object\<close>

record client =
  broker :: string
  port :: int
  topic :: string
  connected :: bool
  trace :: "event list"

text \<open>\<open>__init__\<close>: the fields as the constructor sets them; nothing has happened yet.\<close>

definition MQTTClient :: "string \<Rightarrow> int \<Rightarrow> string \<Rightarrow> client" where
  "MQTTClient b p t = \<lparr>broker = b, port = p, topic = t, connected = False, trace = []\<rparr>"

definition emit :: "event \<Rightarrow> client \<Rightarrow> client" where
  "emit e st = st\<lparr>trace := trace st @ [e]\<rparr>"

definition invoke :: "paho \<Rightarrow> call \<Rightarrow> client \<Rightarrow> reply \<times> client" where
  "invoke L c st = (L (trace st) c, emit (Call c) st)"

text \<open>What an operation has added to the trace.\<close>

definition issued :: "client \<Rightarrow> client \<Rightarrow> event list" where
  "issued st st' = drop (length (trace st)) (trace st')"

definition calls_of :: "event list \<Rightarrow> call list" where
  "calls_of es = concat (map (\<lambda>e. case e of Call c \<Rightarrow> [c] | Sleep d \<Rightarrow> [] | Log l m \<Rightarrow> []) es)"

text \<open>
  The events of the reconnect loop: the attempts (\<open>self.client.reconnect()\<close>) and the
  sleeps, in the order they happen.
\<close>

definition loop_events :: "event list \<Rightarrow> event list" where
  "loop_events es =
     filter (\<lambda>e. case e of Call c \<Rightarrow> c = Reconnect | Sleep d \<Rightarrow> True | Log l m \<Rightarrow> False) es"

subsection \<open>Topic selection\<close>

text \<open>
  \<open>topic if topic else self.topic\<close>: the argument is \<open>None\<close> or a string, and Python
  takes the argument only when it is truthy, that is a non-empty string.
\<close>

definition truthy :: "string option \<Rightarrow> bool" where
  "truthy tp = (case tp of None \<Rightarrow> False | Some t \<Rightarrow> t \<noteq> [])"

definition pick_topic :: "string option \<Rightarrow> client \<Rightarrow> string" where
  "pick_topic tp st = (case tp of None \<Rightarrow> topic st | Some t \<Rightarrow> if truthy tp then t else topic st)"

subsection \<open>subscribe and publish\<close>

definition subscribe :: "paho \<Rightarrow> client \<Rightarrow> string option \<Rightarrow> bool \<times> client" where
  "subscribe L st tp =
     (let sub_topic = pick_topic tp st;
          (result, st1) = invoke L (Subscribe sub_topic) st
      in case result of
           Returns rc \<Rightarrow>
             if rc = MQTT_ERR_SUCCESS
             then (True, emit (Log INFO (SubscribeOk sub_topic)) st1)
             else (False, emit (Log ERROR (SubscribeFailed rc)) st1)
         | Raises \<Rightarrow> (False, emit (Log ERROR SubscribeError) st1))"

definition publish :: "paho \<Rightarrow> client \<Rightarrow> string option \<Rightarrow> string \<Rightarrow> bool \<times> client" where
  "publish L st tp message =
     (if \<not> connected st then (False, emit (Log ERROR NotConnected) st)
      else
        let pub_topic = pick_topic tp st;
            (result, st1) = invoke L (Publish pub_topic message) st
        in case result of
             Returns rc \<Rightarrow>
               if rc = MQTT_ERR_SUCCESS
               then (True, emit (Log INFO (PublishOk message)) st1)
               else (False, emit (Log ERROR (PublishFailed rc)) st1)
           | Raises \<Rightarrow> (False, emit (Log ERROR PublishError) st1))"

subsection \<open>connect and disconnect\<close>

definition connect :: "paho \<Rightarrow> client \<Rightarrow> bool \<times> client" where
  "connect L st =
     (case invoke L (Connect (broker st) (port st) 60) st of
        (Raises, st1) \<Rightarrow> (False, emit (Log ERROR ConnectError) st1)
      | (Returns _, st1) \<Rightarrow>
          (case invoke L LoopStart st1 of
             (Raises, st2) \<Rightarrow> (False, emit (Log ERROR ConnectError) st2)
           | (Returns _, st2) \<Rightarrow> (True, st2)))"

text \<open>
  \<open>disconnect\<close> has no \<open>try\<close>: an exception of either call leaves the method, and the
  second call is then not made.
\<close>

datatype completion = Finished | Uncaught

definition disconnect :: "paho \<Rightarrow> client \<Rightarrow> completion \<times> client" where
  "disconnect L st =
     (case invoke L LoopStop st of
        (Raises, st1) \<Rightarrow> (Uncaught, st1)
      | (Returns _, st1) \<Rightarrow>
          (case invoke L Disconnect st1 of
             (Raises, st2) \<Rightarrow> (Uncaught, st2)
           | (Returns _, st2) \<Rightarrow> (Finished, st2)))"

subsection \<open>The callbacks\<close>

definition on_connect :: "paho \<Rightarrow> client \<Rightarrow> int \<Rightarrow> client" where
  "on_connect L st rc =
     (if rc = 0
      then let st1 = st\<lparr>connected := True\<rparr>;
               st2 = emit (Log INFO ConnectedOk) st1
           in snd (subscribe L st2 (Some (topic st2)))
      else emit (Log ERROR (ConnectRefused rc)) st)"

text \<open>
  An inbound message. \<open>msg.payload.decode()\<close> is Python's UTF-8 decoder, a parameter
  here: it gives the text, or \<open>None\<close> where Python raises \<open>UnicodeDecodeError\<close>.
\<close>

record msg =
  msg_topic :: string
  payload :: "8 word list"

definition on_message :: "(8 word list \<Rightarrow> string option) \<Rightarrow> client \<Rightarrow> msg \<Rightarrow> client" where
  "on_message decode st m =
     (case decode (payload m) of
        Some message \<Rightarrow> emit (Log INFO (Received (msg_topic m) message)) st
      | None \<Rightarrow> emit (Log ERROR MessageError) st)"

subsection \<open>The reconnect loop\<close>

text \<open>One turn of the body of \<open>while not self.connected\<close>.\<close>

definition attempt :: "paho \<Rightarrow> client \<Rightarrow> client" where
  "attempt L st =
     (case invoke L Reconnect st of
        (Returns _, st1) \<Rightarrow> emit (Sleep 5) st1
      | (Raises, st1) \<Rightarrow> emit (Sleep 5) (emit (Log ERROR ReconnectFailed) st1))"

text \<open>
  The loop body assigns no field, so whether the loop ends depends on what other threads
  do to the object while it sleeps: the application calling the public methods, and the
  library delivering a connect acknowledgement. A schedule lists, for each turn of the
  loop, what happens to the object during that turn's sleep.
\<close>

datatype action =
    OnConnect int
  | AppConnect
  | AppDisconnect
  | AppPublish "string option" string
  | AppSubscribe "string option"

fun act :: "paho \<Rightarrow> client \<Rightarrow> action \<Rightarrow> client" where
  "act L st (OnConnect rc) = on_connect L st rc"
| "act L st AppConnect = snd (connect L st)"
| "act L st AppDisconnect = snd (disconnect L st)"
| "act L st (AppPublish tp message) = snd (publish L st tp message)"
| "act L st (AppSubscribe tp) = snd (subscribe L st tp)"

definition interfere :: "paho \<Rightarrow> client \<Rightarrow> action list \<Rightarrow> client" where
  "interfere L st acts = foldl (act L) st acts"

text \<open>
  The loop over a schedule. \<open>Returned\<close>: the guard was found false and \<open>_reconnect\<close>
  returned. \<open>Spinning\<close>: the schedule is used up and the guard is still true, so the loop
  is about to make its next attempt.
\<close>

datatype run = Returned | Spinning

text \<open>A turn during which a connect acknowledgement with result code 0 is delivered.\<close>

definition acked :: "action list \<Rightarrow> bool" where
  "acked acts = (OnConnect 0 \<in> set acts)"

text \<open>
  How many attempts the loop makes on a schedule: it stops after the first turn that is
  acknowledged, and otherwise has made one attempt for each turn of the schedule.
\<close>

definition turns :: "action list list \<Rightarrow> nat" where
  "turns sched = min (Suc (length (takeWhile (\<lambda>acts. \<not> acked acts) sched))) (length sched)"

fun reconnect :: "paho \<Rightarrow> client \<Rightarrow> action list list \<Rightarrow> run \<times> client" where
  "reconnect L st [] = (if connected st then (Returned, st) else (Spinning, st))"
| "reconnect L st (acts # sched) =
     (if connected st then (Returned, st)
      else reconnect L (interfere L (attempt L st) acts) sched)"

definition on_disconnect :: "paho \<Rightarrow> client \<Rightarrow> int \<Rightarrow> action list list \<Rightarrow> run \<times> client" where
  "on_disconnect L st rc sched =
     (let st1 = st\<lparr>connected := False\<rparr>
      in if rc \<noteq> 0
         then reconnect L (emit (Log WARNING UnexpectedDisconnect) st1) sched
         else (Returned, st1))"

subsection \<open>Libraries and clients used in the examples\<close>

text \<open>A library whose every call returns with result code 0.\<close>

definition accepting :: paho where
  "accepting h c = Returns 0"

text \<open>A library whose every call raises.\<close>

definition raising :: paho where
  "raising h c = Raises"

text \<open>A library whose \<open>disconnect()\<close> raises, the link being already broken.\<close>

definition broken_link :: paho where
  "broken_link h c = (case c of Disconnect \<Rightarrow> Raises | _ \<Rightarrow> Returns 0)"

text \<open>
  A library that ignores what is repeated, as paho does on a handle that has no thread and
  no socket any more: a second \<open>loop_stop()\<close> returns \<open>MQTT_ERR_INVAL\<close> (3), a second
  \<open>disconnect()\<close> returns \<open>MQTT_ERR_NO_CONN\<close> (4).
\<close>

definition tolerant :: paho where
  "tolerant h c =
     (case c of
        LoopStop \<Rightarrow> if Call LoopStop \<in> set h then Returns 3 else Returns 0
      | Disconnect \<Rightarrow> if Call Disconnect \<in> set h then Returns 4 else Returns 0
      | _ \<Rightarrow> Returns 0)"

text \<open>
  A library that refuses the empty topic, as paho does: \<open>publish\<close> and \<open>subscribe\<close>
  raise \<open>ValueError\<close> on a topic of length 0.
\<close>

definition strict :: paho where
  "strict h c =
     (case c of
        Publish t m \<Rightarrow> if t = [] then Raises else Returns 0
      | Subscribe t \<Rightarrow> if t = [] then Raises else Returns 0
      | _ \<Rightarrow> Returns 0)"

text \<open>The client of the source's usage example, with the constructor's defaults.\<close>

definition fresh :: client where
  "fresh = MQTTClient ''124.70.54.142'' 1883 ''test_A''"

text \<open>The same client once the broker has acknowledged the connection.\<close>

definition online :: client where
  "online = on_connect accepting (snd (connect accepting fresh)) 0"

text \<open>The client after an attempt that the broker has refused with result code 5.\<close>

definition refused :: client where
  "refused = on_connect accepting (snd (connect accepting fresh)) 5"

text \<open>
  The client after \<open>connect()\<close>, the acknowledgement, \<open>disconnect()\<close> and the
  notification with result code 0.
\<close>

definition settled :: client where
  "settled =
     snd (on_disconnect tolerant
       (snd (disconnect tolerant (on_connect tolerant (snd (connect tolerant fresh)) 0))) 0 [])"

text \<open>A client constructed with the empty string as its default topic.\<close>

definition nameless :: client where
  "nameless = MQTTClient ''124.70.54.142'' 1883 []"

section \<open>What each operation does to the fields and to the trace\<close>

lemma emit_simps [simp]:
  "trace (emit e st) = trace st @ [e]"
  "connected (emit e st) = connected st"
  "topic (emit e st) = topic st"
  "broker (emit e st) = broker st"
  "port (emit e st) = port st"
  by (simp_all add: emit_def)

lemma loop_events_simps [simp]:
  "loop_events [] = []"
  "loop_events (xs @ ys) = loop_events xs @ loop_events ys"
  "loop_events (Call c # es) = (if c = Reconnect then Call c # loop_events es else loop_events es)"
  "loop_events (Sleep d # es) = Sleep d # loop_events es"
  "loop_events (Log l m # es) = loop_events es"
  by (simp_all add: loop_events_def)

lemma pick_topic_simps [simp]:
  "pick_topic None st = topic st"
  "pick_topic (Some t) st = (if t = [] then topic st else t)"
  by (simp_all add: pick_topic_def truthy_def)

lemma subscribe_fields [simp]:
  "connected (snd (subscribe L st tp)) = connected st"
  "topic (snd (subscribe L st tp)) = topic st"
  "broker (snd (subscribe L st tp)) = broker st"
  "port (snd (subscribe L st tp)) = port st"
  by (simp_all add: subscribe_def invoke_def Let_def split: reply.splits)

lemma subscribe_trace:
  "trace (snd (subscribe L st tp)) =
     trace st @ [Call (Subscribe (pick_topic tp st)),
       (case L (trace st) (Subscribe (pick_topic tp st)) of
          Returns rc \<Rightarrow> if rc = 0 then Log INFO (SubscribeOk (pick_topic tp st))
                        else Log ERROR (SubscribeFailed rc)
        | Raises \<Rightarrow> Log ERROR SubscribeError)]"
  by (simp add: subscribe_def invoke_def Let_def MQTT_ERR_SUCCESS_def split: reply.splits)

lemma publish_fields [simp]:
  "connected (snd (publish L st tp m)) = connected st"
  "topic (snd (publish L st tp m)) = topic st"
  "broker (snd (publish L st tp m)) = broker st"
  "port (snd (publish L st tp m)) = port st"
  by (simp_all add: publish_def invoke_def Let_def split: reply.splits)

lemma publish_trace:
  "trace (snd (publish L st tp m)) =
     trace st @
       (if \<not> connected st then [Log ERROR NotConnected]
        else [Call (Publish (pick_topic tp st) m),
          (case L (trace st) (Publish (pick_topic tp st) m) of
             Returns rc \<Rightarrow> if rc = 0 then Log INFO (PublishOk m) else Log ERROR (PublishFailed rc)
           | Raises \<Rightarrow> Log ERROR PublishError)])"
  by (simp add: publish_def invoke_def Let_def MQTT_ERR_SUCCESS_def split: reply.splits)

lemma connect_fields [simp]:
  "connected (snd (connect L st)) = connected st"
  "topic (snd (connect L st)) = topic st"
  "broker (snd (connect L st)) = broker st"
  "port (snd (connect L st)) = port st"
  by (simp_all add: connect_def invoke_def split: reply.splits)

lemma connect_trace:
  "trace (snd (connect L st)) =
     trace st @ Call (Connect (broker st) (port st) 60) #
       (case L (trace st) (Connect (broker st) (port st) 60) of
          Raises \<Rightarrow> [Log ERROR ConnectError]
        | Returns a \<Rightarrow> Call LoopStart #
            (case L (trace st @ [Call (Connect (broker st) (port st) 60)]) LoopStart of
               Raises \<Rightarrow> [Log ERROR ConnectError]
             | Returns b \<Rightarrow> []))"
  by (simp add: connect_def invoke_def split: reply.splits)

lemma disconnect_fields [simp]:
  "connected (snd (disconnect L st)) = connected st"
  "topic (snd (disconnect L st)) = topic st"
  "broker (snd (disconnect L st)) = broker st"
  "port (snd (disconnect L st)) = port st"
  by (simp_all add: disconnect_def invoke_def split: reply.splits)

lemma disconnect_trace:
  "trace (snd (disconnect L st)) =
     trace st @ Call LoopStop #
       (case L (trace st) LoopStop of Raises \<Rightarrow> [] | Returns a \<Rightarrow> [Call Disconnect])"
  by (simp add: disconnect_def invoke_def split: reply.splits)

lemma on_connect_fields [simp]:
  "connected (on_connect L st rc) = (connected st \<or> rc = 0)"
  "topic (on_connect L st rc) = topic st"
  "broker (on_connect L st rc) = broker st"
  "port (on_connect L st rc) = port st"
  by (simp_all add: on_connect_def Let_def)

lemma on_connect_trace:
  "trace (on_connect L st rc) =
     trace st @
       (if rc = 0
        then [Log INFO ConnectedOk, Call (Subscribe (topic st)),
          (case L (trace st @ [Log INFO ConnectedOk]) (Subscribe (topic st)) of
             Returns r \<Rightarrow> if r = 0 then Log INFO (SubscribeOk (topic st))
                          else Log ERROR (SubscribeFailed r)
           | Raises \<Rightarrow> Log ERROR SubscribeError)]
        else [Log ERROR (ConnectRefused rc)])"
  by (simp add: on_connect_def Let_def subscribe_trace split: reply.splits)

lemma attempt_fields [simp]:
  "connected (attempt L st) = connected st"
  "topic (attempt L st) = topic st"
  "broker (attempt L st) = broker st"
  "port (attempt L st) = port st"
  by (simp_all add: attempt_def invoke_def split: reply.splits)

lemma attempt_trace:
  "trace (attempt L st) =
     trace st @ Call Reconnect #
       (case L (trace st) Reconnect of
          Returns a \<Rightarrow> [Sleep 5]
        | Raises \<Rightarrow> [Log ERROR ReconnectFailed, Sleep 5])"
  by (simp add: attempt_def invoke_def split: reply.splits)

lemma act_connected [simp]: "connected (act L st a) = (connected st \<or> a = OnConnect 0)"
  by (cases a) simp_all

lemma act_fields [simp]:
  "topic (act L st a) = topic st"
  "broker (act L st a) = broker st"
  "port (act L st a) = port st"
  by (cases a; simp)+

lemma act_trace: "\<exists>X. trace (act L st a) = trace st @ X \<and> loop_events X = []"
  by (cases a)
    (simp_all add: on_connect_trace connect_trace disconnect_trace publish_trace subscribe_trace
      split: reply.splits)

lemma interfere_connected [simp]: "connected (interfere L st acts) = (connected st \<or> acked acts)"
  unfolding interfere_def acked_def by (induction acts arbitrary: st) auto

lemma interfere_fields [simp]:
  "topic (interfere L st acts) = topic st"
  "broker (interfere L st acts) = broker st"
  "port (interfere L st acts) = port st"
  unfolding interfere_def by (induction acts arbitrary: st; simp)+

lemma interfere_trace: "\<exists>X. trace (interfere L st acts) = trace st @ X \<and> loop_events X = []"
  unfolding interfere_def
proof (induction acts arbitrary: st)
  case Nil
  show ?case by simp
next
  case (Cons a acts)
  obtain X where X: "trace (act L st a) = trace st @ X" "loop_events X = []"
    using act_trace by blast
  obtain Y where Y: "trace (foldl (act L) (act L st a) acts) = trace (act L st a) @ Y"
    "loop_events Y = []"
    using Cons.IH by blast
  show ?case using X Y by simp
qed

lemma turn_trace:
  "\<exists>X. trace (interfere L (attempt L st) acts) = trace st @ X
     \<and> loop_events X = [Call Reconnect, Sleep 5]"
proof -
  obtain Y where Y: "trace (interfere L (attempt L st) acts) = trace (attempt L st) @ Y"
    "loop_events Y = []"
    using interfere_trace by blast
  show ?thesis using Y by (simp add: attempt_trace split: reply.splits)
qed

lemma turns_simps [simp]:
  "turns [] = 0"
  "turns (acts # sched) = (if acked acts then 1 else Suc (turns sched))"
  by (simp_all add: turns_def)

lemma reconnect_run:
  "fst (reconnect L st sched) =
     (if connected st \<or> (\<exists>acts \<in> set sched. acked acts) then Returned else Spinning)"
  by (induction sched arbitrary: st) auto

lemma reconnect_fields [simp]:
  "topic (snd (reconnect L st sched)) = topic st"
  "broker (snd (reconnect L st sched)) = broker st"
  "port (snd (reconnect L st sched)) = port st"
  by (induction sched arbitrary: st; simp)+

lemma reconnect_trace:
  "\<exists>X. trace (snd (reconnect L st sched)) = trace st @ X
     \<and> loop_events X =
         concat (replicate (if connected st then 0 else turns sched) [Call Reconnect, Sleep 5])"
proof (induction sched arbitrary: st)
  case Nil
  show ?case by simp
next
  case (Cons acts sched)
  show ?case
  proof (cases "connected st")
    case True
    then show ?thesis by simp
  next
    case False
    let ?st1 = "interfere L (attempt L st) acts"
    obtain X where X: "trace ?st1 = trace st @ X" "loop_events X = [Call Reconnect, Sleep 5]"
      using turn_trace by blast
    obtain Y where Y: "trace (snd (reconnect L ?st1 sched)) = trace ?st1 @ Y"
      "loop_events Y =
         concat (replicate (if connected ?st1 then 0 else turns sched) [Call Reconnect, Sleep 5])"
      using Cons.IH by blast
    show ?thesis
      using False X Y by (intro exI[of _ "X @ Y"]) simp
  qed
qed

lemma calls_of_simps [simp]:
  "calls_of [] = []"
  "calls_of (xs @ ys) = calls_of xs @ calls_of ys"
  "calls_of (Call c # es) = c # calls_of es"
  "calls_of (Sleep d # es) = calls_of es"
  "calls_of (Log l m # es) = calls_of es"
  by (simp_all add: calls_of_def)

lemma on_disconnect_run:
  "fst (on_disconnect L st rc sched) =
     (if rc = 0 \<or> (\<exists>acts \<in> set sched. acked acts) then Returned else Spinning)"
  by (simp add: on_disconnect_def Let_def reconnect_run)

lemma on_disconnect_trace:
  "\<exists>X. trace (snd (on_disconnect L st rc sched)) = trace st @ X
     \<and> loop_events X =
         concat (replicate (if rc = 0 then 0 else turns sched) [Call Reconnect, Sleep 5])"
proof (cases "rc = 0")
  case True
  then show ?thesis by (simp add: on_disconnect_def)
next
  case False
  let ?st1 = "emit (Log WARNING UnexpectedDisconnect) (st\<lparr>connected := False\<rparr>)"
  obtain X where X: "trace (snd (reconnect L ?st1 sched)) = trace ?st1 @ X"
    "loop_events X =
       concat (replicate (if connected ?st1 then 0 else turns sched) [Call Reconnect, Sleep 5])"
    using reconnect_trace by blast
  show ?thesis
    using False X
    by (intro exI[of _ "Log WARNING UnexpectedDisconnect # X"]) (simp add: on_disconnect_def)
qed

lemma turns_unacked: "\<forall>acts \<in> set sched. \<not> acked acts \<Longrightarrow> turns sched = length sched"
  by (induction sched) simp_all

lemma turns_Cons_pos: "\<exists>k. turns (acts # sched) = Suc k"
  by simp

lemma publish_not_connected:
  "\<not> connected st \<Longrightarrow> publish L st tp message = (False, emit (Log ERROR NotConnected) st)"
  by (simp add: publish_def)

lemma subscribe_result:
  "fst (subscribe L st tp) = (L (trace st) (Subscribe (pick_topic tp st)) = Returns 0)"
  by (simp add: subscribe_def invoke_def Let_def MQTT_ERR_SUCCESS_def split: reply.splits)

lemma on_message_undecodable:
  "decode (payload m) = None \<Longrightarrow> on_message decode st m = emit (Log ERROR MessageError) st"
  by (simp add: on_message_def)

text \<open>The definitions that evaluate an operation on a concrete client and library.\<close>

lemmas examples =
  fresh_def online_def nameless_def refused_def settled_def MQTTClient_def
  accepting_def raising_def broken_link_def tolerant_def strict_def
  connect_def disconnect_def subscribe_def publish_def on_connect_def on_disconnect_def
  attempt_def interfere_def invoke_def emit_def issued_def calls_of_def loop_events_def
  pick_topic_def truthy_def MQTT_ERR_SUCCESS_def Let_def acked_def turns_def

section \<open>Publishing and subscribing outside the connected state\<close>

text \<open>
  Claim C1. The claim: in every state other than connected, both \<open>publish\<close> and
  \<open>subscribe\<close> fail. \<open>publish\<close> tests \<open>self.connected\<close> first
  (\<open>publish_not_connected\<close>); \<open>subscribe\<close> has no such test, and its result is the
  library's alone (\<open>subscribe_result\<close>). After \<open>connect()\<close> has dispatched the attempt
  and before any acknowledgement, \<open>connected\<close> is still false, and \<open>subscribe("t1")\<close>
  sends the request and returns \<open>True\<close> when the library accepts it.
\<close>

theorem subscribe_while_connecting:
  "\<not> connected (snd (connect accepting fresh)) \<and>
   fst (subscribe accepting (snd (connect accepting fresh)) (Some ''t1'')) = True \<and>
   issued (snd (connect accepting fresh))
     (snd (subscribe accepting (snd (connect accepting fresh)) (Some ''t1''))) =
     [Call (Subscribe ''t1''), Log INFO (SubscribeOk ''t1'')]"
  by (simp add: examples)

section \<open>Subscriptions across a reconnection\<close>

text \<open>
  Claim C2, as stated, fails. The client subscribes to \<open>t1\<close> while connected, the link
  is lost (\<open>rc = 1\<close>), the first reconnect attempt is acknowledged. The calls made since
  the loss are the attempt and one subscribe request, for the default topic \<open>test_A\<close>:
  none for \<open>t1\<close>.
\<close>

theorem replay_counterexample:
  "fst (subscribe accepting online (Some ''t1'')) = True \<and>
   fst (on_disconnect accepting (snd (subscribe accepting online (Some ''t1''))) 1 [[OnConnect 0]])
     = Returned \<and>
   connected (snd (on_disconnect accepting (snd (subscribe accepting online (Some ''t1''))) 1
     [[OnConnect 0]])) \<and>
   calls_of (issued (snd (subscribe accepting online (Some ''t1'')))
     (snd (on_disconnect accepting (snd (subscribe accepting online (Some ''t1''))) 1
       [[OnConnect 0]]))) = [Reconnect, Subscribe ''test_A'']"
  by (simp add: examples)

text \<open>
  Claim C2, amended. Whatever was subscribed before, a connect acknowledgement with result
  code 0 issues exactly one subscribe request, for the configured default topic;
  \<open>subscribe\<close> changes no field of the object, so there is nothing to replay; and a
  link loss followed by an acknowledged first attempt makes exactly the calls
  \<open>reconnect()\<close> and \<open>subscribe(self.topic)\<close>.
\<close>

theorem on_connect_subscribes_default_only:
  "calls_of (issued st (on_connect L st 0)) = [Subscribe (topic st)] \<and>
   (snd (subscribe L st tp))\<lparr>trace := trace st\<rparr> = st \<and>
   calls_of (issued st (snd (on_disconnect L st 1 [[OnConnect 0]]))) =
     [Reconnect, Subscribe (topic st)]"
proof (intro conjI)
  show "calls_of (issued st (on_connect L st 0)) = [Subscribe (topic st)]"
    by (simp add: issued_def on_connect_trace split: reply.splits)
  show "(snd (subscribe L st tp))\<lparr>trace := trace st\<rparr> = st"
    by (simp add: subscribe_def invoke_def emit_def Let_def split: reply.splits)
  show "calls_of (issued st (snd (on_disconnect L st 1 [[OnConnect 0]]))) =
     [Reconnect, Subscribe (topic st)]"
    by (simp add: issued_def on_disconnect_def interfere_def attempt_trace on_connect_trace
        split: reply.splits)
qed

section \<open>disconnect and the reconnect loop\<close>

text \<open>
  Claim C3, as stated, fails. The link of a connected client is lost (\<open>rc = 1\<close>) and the
  loop starts; the application calls \<open>disconnect()\<close> during the sleep of the first turn.
  The guard \<open>not self.connected\<close> is still true, and the loop calls \<open>reconnect()\<close>
  again after the \<open>disconnect()\<close>.
\<close>

theorem disconnect_during_reconnect_counterexample:
  "on_disconnect accepting online 1 [[AppDisconnect], []] =
     (Spinning, online\<lparr>connected := False, trace := trace online @
        [Log WARNING UnexpectedDisconnect, Call Reconnect, Sleep 5,
         Call LoopStop, Call Disconnect, Call Reconnect, Sleep 5]\<rparr>)"
  by (simp add: examples)

text \<open>
  Claim C3, amended. \<open>disconnect()\<close> leaves the flag \<open>connected\<close> as it was. A
  reconnect loop that is running while the application calls \<open>disconnect()\<close>, any number
  of times, keeps going: one attempt and one sleep for every turn. A disconnect
  notification with result code 0, the one that follows a \<open>disconnect()\<close>, starts no
  loop and makes no attempt.
\<close>

theorem disconnect_leaves_loop_running:
  "connected (snd (disconnect L st)) = connected st \<and>
   (\<not> connected st \<and> (\<forall>acts \<in> set sched. \<forall>a \<in> set acts. a = AppDisconnect) \<longrightarrow>
      fst (reconnect L st sched) = Spinning \<and>
      loop_events (issued st (snd (reconnect L st sched))) =
        concat (replicate (length sched) [Call Reconnect, Sleep 5])) \<and>
   Reconnect \<notin> set (calls_of (issued st (snd (on_disconnect L st 0 sched))))"
proof (intro conjI impI)
  show "connected (snd (disconnect L st)) = connected st" by simp
next
  assume h: "\<not> connected st \<and> (\<forall>acts \<in> set sched. \<forall>a \<in> set acts. a = AppDisconnect)"
  then have un: "\<forall>acts \<in> set sched. \<not> acked acts"
    by (auto simp: acked_def)
  show "fst (reconnect L st sched) = Spinning"
    using h un by (simp add: reconnect_run)
  obtain X where X: "trace (snd (reconnect L st sched)) = trace st @ X"
    "loop_events X =
       concat (replicate (if connected st then 0 else turns sched) [Call Reconnect, Sleep 5])"
    using reconnect_trace by blast
  show "loop_events (issued st (snd (reconnect L st sched))) =
        concat (replicate (length sched) [Call Reconnect, Sleep 5])"
    using h X turns_unacked[OF un] by (simp add: issued_def)
next
  show "Reconnect \<notin> set (calls_of (issued st (snd (on_disconnect L st 0 sched))))"
    by (simp add: on_disconnect_def issued_def)
qed

text \<open>
  Claim C3, the amended statement at a concrete input: a disconnected client, and
  \<open>disconnect()\<close> called during each of two turns.
\<close>

theorem disconnect_leaves_loop_running_witness:
  "\<not> connected fresh \<and>
   fst (reconnect accepting fresh [[AppDisconnect], [AppDisconnect]]) = Spinning \<and>
   loop_events (issued fresh (snd (reconnect accepting fresh [[AppDisconnect], [AppDisconnect]]))) =
     [Call Reconnect, Sleep 5, Call Reconnect, Sleep 5]"
  using disconnect_leaves_loop_running [of accepting fresh "[[AppDisconnect], [AppDisconnect]]"]
  by (simp add: fresh_def MQTTClient_def)

section \<open>connect\<close>

text \<open>
  Claim C4, as stated, fails. \<open>connect()\<close> is called, and called again before any
  acknowledgement (\<open>connected\<close> is still false). The second call returns \<open>True\<close> and
  has dispatched a second attempt.
\<close>

theorem connect_twice_counterexample:
  "\<not> connected (snd (connect accepting fresh)) \<and>
   connect accepting (snd (connect accepting fresh)) =
     (True, fresh\<lparr>trace :=
        [Call (Connect ''124.70.54.142'' 1883 60), Call LoopStart,
         Call (Connect ''124.70.54.142'' 1883 60), Call LoopStart]\<rparr>)"
  by (simp add: examples)

text \<open>
  Claim C4, amended. \<open>connect()\<close> looks at no state: in every state it dispatches a new
  attempt, \<open>self.client.connect(broker, port, 60)\<close> first, and it returns \<open>True\<close>
  exactly when neither that call nor \<open>loop_start()\<close> raises. Its result does not depend
  on the flag \<open>connected\<close>.
\<close>

theorem connect_has_no_state_check:
  "fst (connect L st) =
     (L (trace st) (Connect (broker st) (port st) 60) \<noteq> Raises \<and>
      L (trace st @ [Call (Connect (broker st) (port st) 60)]) LoopStart \<noteq> Raises) \<and>
   take 1 (issued st (snd (connect L st))) = [Call (Connect (broker st) (port st) 60)] \<and>
   fst (connect L (st\<lparr>connected := b\<rparr>)) = fst (connect L st)"
  by (simp add: connect_def invoke_def emit_def issued_def split: reply.splits)

section \<open>The reconnect loop\<close>

text \<open>
  Claim C5, as stated, fails. The link is lost with result code 7 and the application
  calls \<open>disconnect()\<close> during the second turn: the loop has not returned and makes a
  third attempt.
\<close>

theorem reconnect_outlives_disconnect_counterexample:
  "fst (on_disconnect accepting online 7 [[], [AppDisconnect], []]) = Spinning \<and>
   calls_of (issued online (snd (on_disconnect accepting online 7 [[], [AppDisconnect], []]))) =
     [Reconnect, Reconnect, LoopStop, Disconnect, Reconnect]"
  by (simp add: examples)

text \<open>
  Claim C5, amended. The loop is entered only from the disconnect callback with a result
  code other than 0. It returns exactly when a connect acknowledgement with result code 0
  has been delivered during one of its turns; an explicit \<open>disconnect()\<close> does not end
  it. Its attempts and sleeps alternate, every sleep lasting 5, whether the attempt raised
  or not. While no acknowledgement arrives it makes one attempt for every turn, without a
  cap.
\<close>

theorem reconnect_loop_until_acknowledged:
  "(fst (on_disconnect L st rc sched) = Returned \<longleftrightarrow> rc = 0 \<or> (\<exists>acts \<in> set sched. acked acts)) \<and>
   loop_events (issued st (snd (on_disconnect L st rc sched))) =
     concat (replicate (if rc = 0 then 0 else turns sched) [Call Reconnect, Sleep 5]) \<and>
   ((\<forall>acts \<in> set sched. \<not> acked acts) \<longrightarrow> turns sched = length sched)"
proof (intro conjI impI)
  show "fst (on_disconnect L st rc sched) = Returned \<longleftrightarrow> rc = 0 \<or> (\<exists>acts \<in> set sched. acked acts)"
    by (simp add: on_disconnect_run)
  obtain X where X: "trace (snd (on_disconnect L st rc sched)) = trace st @ X"
    "loop_events X =
       concat (replicate (if rc = 0 then 0 else turns sched) [Call Reconnect, Sleep 5])"
    using on_disconnect_trace by blast
  show "loop_events (issued st (snd (on_disconnect L st rc sched))) =
     concat (replicate (if rc = 0 then 0 else turns sched) [Call Reconnect, Sleep 5])"
    using X by (simp add: issued_def)
  assume "\<forall>acts \<in> set sched. \<not> acked acts"
  then show "turns sched = length sched" by (rule turns_unacked)
qed

text \<open>
  Claim C5, the amended statement at concrete inputs: a loop whose third turn is
  acknowledged returns after three attempts; a loop that is never acknowledged is still
  running after two.
\<close>

theorem reconnect_loop_until_acknowledged_witness:
  "fst (on_disconnect accepting online 1 [[], [AppDisconnect], [OnConnect 0], []]) = Returned \<and>
   loop_events (issued online
     (snd (on_disconnect accepting online 1 [[], [AppDisconnect], [OnConnect 0], []]))) =
     [Call Reconnect, Sleep 5, Call Reconnect, Sleep 5, Call Reconnect, Sleep 5] \<and>
   fst (on_disconnect raising online 1 [[], [AppDisconnect]]) \<noteq> Returned \<and>
   \<not> acked [] \<and> \<not> acked [AppDisconnect] \<and>
   turns [[], [AppDisconnect]] = 2"
  using reconnect_loop_until_acknowledged
          [of accepting online 1 "[[], [AppDisconnect], [OnConnect 0], []]"]
        reconnect_loop_until_acknowledged [of raising online 1 "[[], [AppDisconnect]]"]
  by (simp add: acked_def)

section \<open>A failed connection attempt\<close>

text \<open>
  Claim C6, as stated, fails where it says that nothing is retried. The broker refuses
  the attempt with result code 5; the connect callback logs the code. The library then
  reports the closed link to the disconnect callback with a result code other than 0, and
  that callback, which does not ask whether a connection was ever established, starts the
  reconnect loop: \<open>reconnect()\<close> is called without any new \<open>connect()\<close>.
\<close>

theorem refused_attempt_counterexample:
  "\<not> connected refused \<and>
   on_disconnect accepting refused 5 [[]] =
     (Spinning, refused\<lparr>trace := trace refused @
        [Log WARNING UnexpectedDisconnect, Call Reconnect, Sleep 5]\<rparr>)"
  by (simp add: examples)

text \<open>
  Claim C6, amended. A failed attempt is reported: when \<open>self.client.connect\<close> raises,
  \<open>connect()\<close> logs the error and returns \<open>False\<close>, having made that one call and
  nothing else; when the acknowledgement carries a result code other than 0, the connect
  callback logs that code and does nothing else. \<open>connect()\<close> and the connect callback
  retry nothing themselves: whenever \<open>connect()\<close> returns \<open>False\<close> the flag
  \<open>connected\<close> is as before, no \<open>reconnect()\<close> has been called and
  \<open>self.client.connect\<close> has been called once. The disconnect callback however starts
  the reconnect loop on every result code other than 0, in every state: a disconnect
  notification that follows a failed attempt is answered by an attempt and a sleep of 5.
\<close>

theorem connect_failure_reported_retried_on_notification:
  "(L (trace st) (Connect (broker st) (port st) 60) = Raises \<longrightarrow>
      connect L st =
        (False, st\<lparr>trace := trace st @
           [Call (Connect (broker st) (port st) 60), Log ERROR ConnectError]\<rparr>)) \<and>
   (rc \<noteq> 0 \<longrightarrow>
      on_connect L st rc = st\<lparr>trace := trace st @ [Log ERROR (ConnectRefused rc)]\<rparr>) \<and>
   (\<not> fst (connect L st) \<longrightarrow>
      connected (snd (connect L st)) = connected st \<and>
      Reconnect \<notin> set (calls_of (issued st (snd (connect L st)))) \<and>
      length (filter (\<lambda>c. c = Connect (broker st) (port st) 60)
        (calls_of (issued st (snd (connect L st))))) = 1) \<and>
   (d \<noteq> 0 \<longrightarrow>
      take 2 (loop_events (issued st (snd (on_disconnect L st d (acts # sched))))) =
        [Call Reconnect, Sleep 5])"
proof (intro conjI)
  show "L (trace st) (Connect (broker st) (port st) 60) = Raises \<longrightarrow>
      connect L st =
        (False, st\<lparr>trace := trace st @
           [Call (Connect (broker st) (port st) 60), Log ERROR ConnectError]\<rparr>)"
    by (simp add: connect_def invoke_def emit_def)
  show "rc \<noteq> 0 \<longrightarrow>
      on_connect L st rc = st\<lparr>trace := trace st @ [Log ERROR (ConnectRefused rc)]\<rparr>"
    by (simp add: on_connect_def emit_def)
  show "\<not> fst (connect L st) \<longrightarrow>
      connected (snd (connect L st)) = connected st \<and>
      Reconnect \<notin> set (calls_of (issued st (snd (connect L st)))) \<and>
      length (filter (\<lambda>c. c = Connect (broker st) (port st) 60)
        (calls_of (issued st (snd (connect L st))))) = 1"
    by (simp add: connect_def invoke_def emit_def issued_def split: reply.splits)
  show "d \<noteq> 0 \<longrightarrow>
      take 2 (loop_events (issued st (snd (on_disconnect L st d (acts # sched))))) =
        [Call Reconnect, Sleep 5]"
  proof
    assume d: "d \<noteq> 0"
    obtain X where X: "trace (snd (on_disconnect L st d (acts # sched))) = trace st @ X"
      "loop_events X =
         concat (replicate (if d = 0 then 0 else turns (acts # sched)) [Call Reconnect, Sleep 5])"
      using on_disconnect_trace by blast
    obtain k where k: "turns (acts # sched) = Suc k"
      using turns_Cons_pos by blast
    show "take 2 (loop_events (issued st (snd (on_disconnect L st d (acts # sched))))) =
        [Call Reconnect, Sleep 5]"
      using d X k by (simp add: issued_def)
  qed
qed

text \<open>
  Claim C6, the amended statement at concrete inputs: a library that raises on
  \<open>connect\<close>; an acknowledgement with result code 5 after a dispatched attempt; and the
  disconnect notification with result code 5 on the client so refused.
\<close>

theorem connect_failure_reported_retried_on_notification_witness:
  "raising (trace fresh) (Connect (broker fresh) (port fresh) 60) = Raises \<and>
   (5::int) \<noteq> 0 \<and> \<not> fst (connect raising fresh) \<and>
   connect raising fresh =
     (False, fresh\<lparr>trace :=
        [Call (Connect ''124.70.54.142'' 1883 60), Log ERROR ConnectError]\<rparr>) \<and>
   refused =
     fresh\<lparr>trace := [Call (Connect ''124.70.54.142'' 1883 60), Call LoopStart,
       Log ERROR (ConnectRefused 5)]\<rparr> \<and>
   take 2 (loop_events (issued refused (snd (on_disconnect accepting refused 5 [[], []])))) =
     [Call Reconnect, Sleep 5]"
  using connect_failure_reported_retried_on_notification [of raising fresh 5 5 "[]" "[]"]
        connect_failure_reported_retried_on_notification
          [of accepting "snd (connect accepting fresh)" 5 5 "[]" "[]"]
        connect_failure_reported_retried_on_notification [of accepting refused 5 5 "[]" "[[]]"]
  by (simp add: examples)

section \<open>disconnect on a disconnected client\<close>




section \<open>Exceptions of the library\<close>

text \<open>
  Claim C8. The claim: no public operation lets an exception escape. \<open>connect\<close>,
  \<open>publish\<close> and \<open>subscribe\<close> wrap their library calls in \<open>try\<close>, and the message
  callback wraps the decoding (\<open>on_message_undecodable\<close>); \<open>disconnect\<close> does not. On a
  connected client whose link is broken, so that \<open>self.client.disconnect()\<close> raises, the
  exception leaves \<open>disconnect()\<close>.
\<close>

theorem disconnect_propagates:
  "disconnect broken_link online =
     (Uncaught, online\<lparr>trace := trace online @ [Call LoopStop, Call Disconnect]\<rparr>)"
  by (simp add: examples)

section \<open>The default topic\<close>

text \<open>
  Claim C9. \<open>publish\<close> and \<open>subscribe\<close> called without a topic (\<open>None\<close>) use the
  configured default topic: the one request \<open>subscribe\<close> makes, and the one \<open>publish\<close>
  makes when connected, name \<open>self.topic\<close>, and the result is \<open>True\<close> exactly when
  the library answers that request with result code 0 (and, for \<open>publish\<close>, the client
  is connected). The whole outcome, result, request and log line, is that of the same call
  with the default topic passed explicitly.
\<close>

theorem omitted_topic_is_default:
  "publish L st None message = publish L st (Some (topic st)) message \<and>
   subscribe L st None = subscribe L st (Some (topic st)) \<and>
   calls_of (issued st (snd (publish L st None message))) =
     (if connected st then [Publish (topic st) message] else []) \<and>
   calls_of (issued st (snd (subscribe L st None))) = [Subscribe (topic st)] \<and>
   fst (publish L st None message) =
     (connected st \<and> L (trace st) (Publish (topic st) message) = Returns 0) \<and>
   fst (subscribe L st None) = (L (trace st) (Subscribe (topic st)) = Returns 0)"
proof (intro conjI)
  show "publish L st None message = publish L st (Some (topic st)) message"
    and "subscribe L st None = subscribe L st (Some (topic st))"
    by (simp_all add: publish_def subscribe_def)
  show "calls_of (issued st (snd (publish L st None message))) =
     (if connected st then [Publish (topic st) message] else [])"
    by (simp add: issued_def publish_trace split: reply.splits)
  show "calls_of (issued st (snd (subscribe L st None))) = [Subscribe (topic st)]"
    by (simp add: issued_def subscribe_trace split: reply.splits)
  show "fst (publish L st None message) =
     (connected st \<and> L (trace st) (Publish (topic st) message) = Returns 0)"
    by (simp add: publish_def invoke_def Let_def MQTT_ERR_SUCCESS_def split: reply.splits)
  show "fst (subscribe L st None) = (L (trace st) (Subscribe (topic st)) = Returns 0)"
    by (simp add: subscribe_result)
qed

text \<open>
  Claim C10. A topic argument that is not truthy (\<open>None\<close> or the empty string) is
  replaced by the configured default topic, and the call behaves as the call with that
  topic passed explicitly. The one request each operation makes names the topic so
  chosen. That topic is the empty string only when the configured default topic is empty;
  and then, the library raising on an empty topic as paho does, both operations catch the
  exception and return \<open>False\<close>: no publish and no subscribe to the empty topic
  succeeds.
\<close>

theorem empty_topic_unreachable:
  "(\<not> truthy tp \<longrightarrow>
      pick_topic tp st = topic st \<and>
      publish L st tp message = publish L st (Some (topic st)) message \<and>
      subscribe L st tp = subscribe L st (Some (topic st))) \<and>
   calls_of (issued st (snd (publish L st tp message))) =
     (if connected st then [Publish (pick_topic tp st) message] else []) \<and>
   calls_of (issued st (snd (subscribe L st tp))) = [Subscribe (pick_topic tp st)] \<and>
   (topic st \<noteq> [] \<longrightarrow> pick_topic tp st \<noteq> []) \<and>
   ((\<forall>h m. L h (Publish [] m) = Raises) \<and> (\<forall>h. L h (Subscribe []) = Raises) \<and>
    pick_topic tp st = [] \<longrightarrow>
      \<not> fst (publish L st tp message) \<and> \<not> fst (subscribe L st tp))"
proof (intro conjI impI)
  assume "\<not> truthy tp"
  then show pt: "pick_topic tp st = topic st"
    by (cases tp) (simp_all add: truthy_def)
  then show "publish L st tp message = publish L st (Some (topic st)) message"
    and "subscribe L st tp = subscribe L st (Some (topic st))"
    by (simp_all add: publish_def subscribe_def)
next
  show "calls_of (issued st (snd (publish L st tp message))) =
        (if connected st then [Publish (pick_topic tp st) message] else [])"
    by (simp add: issued_def publish_trace split: reply.splits)
  show "calls_of (issued st (snd (subscribe L st tp))) = [Subscribe (pick_topic tp st)]"
    by (simp add: issued_def subscribe_trace split: reply.splits)
next
  assume "topic st \<noteq> []"
  then show "pick_topic tp st \<noteq> []"
    by (cases tp) simp_all
next
  assume h: "(\<forall>h m. L h (Publish [] m) = Raises) \<and> (\<forall>h. L h (Subscribe []) = Raises) \<and>
    pick_topic tp st = []"
  then show "\<not> fst (publish L st tp message)"
    by (simp add: publish_def invoke_def Let_def)
  from h show "\<not> fst (subscribe L st tp)"
    by (simp add: subscribe_def invoke_def Let_def)
qed

text \<open>
  Claim C10 at concrete inputs, with a library that raises on the empty topic: the empty
  string passed to a connected client whose default topic is \<open>test_A\<close>, and to a
  connected client whose default topic is the empty string.
\<close>

theorem empty_topic_unreachable_witness:
  "\<not> truthy (Some []) \<and> topic online \<noteq> [] \<and>
   (\<forall>h m. strict h (Publish [] m) = Raises) \<and> (\<forall>h. strict h (Subscribe []) = Raises) \<and>
   calls_of (issued online (snd (publish strict online (Some []) ''hi''))) =
     [Publish ''test_A'' ''hi''] \<and>
   calls_of (issued online (snd (subscribe strict online (Some [])))) = [Subscribe ''test_A''] \<and>
   pick_topic (Some []) (on_connect strict nameless 0) = [] \<and>
   \<not> fst (publish strict (on_connect strict nameless 0) (Some []) ''hi'') \<and>
   \<not> fst (subscribe strict (on_connect strict nameless 0) (Some []))"
  using empty_topic_unreachable [of "Some []" online strict "''hi''"]
        empty_topic_unreachable [of "Some []" "on_connect strict nameless 0" strict "''hi''"]
  by (simp add: examples)

end
